theory Spec2Isabelle
  imports Main
begin

section \<open>The page as the script sees it\<close>

text \<open>
  The theme's script \<^verbatim>\<open>minWidth.js\<close> is twelve lines: three statements that register
  the function \<^verbatim>\<open>updateMinWidth\<close> as a handler, and the function itself. It talks to
  the browser through four interfaces only: \<^verbatim>\<open>document.getElementById\<close>, the
  inline style object \<^verbatim>\<open>el.style\<close>, \<^verbatim>\<open>getComputedStyle(el).getPropertyValue\<close> and
  \<^verbatim>\<open>addEventListener\<close>. The page is a record of what these interfaces read and
  write.
\<close>

text \<open>The only exception the script can raise: dereferencing \<^verbatim>\<open>null\<close>.\<close>

datatype js_error = TypeError

text \<open>The only function object the script passes around.\<close>

datatype handler = UpdateMinWidth

text \<open>
  An element carries its inline declarations (\<^verbatim>\<open>el.style\<close>), the values the cascade
  gives it from the stylesheets alone (what the computed style shows for a property with
  no inline declaration), and its registered event listeners in registration order.
\<close>

record element =
  style :: "string \<rightharpoonup> string"
  sheet :: "string \<rightharpoonup> string"
  listeners :: "(string \<times> handler) list"

text \<open>One assignment to an inline style property, as the script issued it.\<close>

record style_write =
  target :: string
  property :: string
  text_written :: string

text \<open>
  The page: the document's elements by id, the two window handler slots, the rendering
  engine and the journal of the inline style assignments issued so far, oldest first.
  The script meets the engine at two places, and the page carries one function for each,
  both left open:
  \<^item> \<open>parses\<close>: what the setter of \<^verbatim>\<open>style.minWidth\<close> makes of an assigned text: the
    declaration it stores, in the engine's own serialisation (an engine stores
    \<^verbatim>\<open>calc(600px - 240px - 0px)\<close> as \<^verbatim>\<open>calc(360px)\<close>), or \<open>None\<close> for a text it
    cannot parse as a minimum width;
  \<^item> \<open>engine\<close>: the computed value reported for a stored inline declaration.
\<close>

record page =
  elements :: "string \<rightharpoonup> element"
  onload :: "handler option"
  onresize :: "handler option"
  parses :: "string \<Rightarrow> string option"
  engine :: "string \<Rightarrow> string"
  journal :: "style_write list"

text \<open>
  \<^verbatim>\<open>document.getElementById(i)\<close>: the element's handle (its id), or \<^verbatim>\<open>null\<close>
  (\<open>None\<close>) when the document has no such element.
\<close>

definition getElementById :: "page \<Rightarrow> string \<Rightarrow> string option" where
  "getElementById p i = (case elements p i of None \<Rightarrow> None | Some e \<Rightarrow> Some i)"

text \<open>
  The setter of an inline property, given the engine's parser \<open>ps\<close>: the empty string
  removes the declaration; a text the engine cannot parse is ignored, the declarations
  staying as they are and no error raised; a text it parses is stored in the engine's
  serialisation.
\<close>

definition assign ::
  "(string \<Rightarrow> string option) \<Rightarrow> string \<Rightarrow> string \<Rightarrow> (string \<rightharpoonup> string) \<Rightarrow> (string \<rightharpoonup> string)" where
  "assign ps prop v st =
     (if v = [] then st(prop := None)
      else (case ps v of None \<Rightarrow> st | Some v' \<Rightarrow> st(prop \<mapsto> v')))"

text \<open>
  \<^verbatim>\<open>h.style.minWidth = v\<close>. On \<^verbatim>\<open>null\<close> the property access \<^verbatim>\<open>h.style\<close> throws and
  nothing is written. Otherwise the assignment is entered in the journal with the text
  as the script passed it, whatever the setter then does with it.
\<close>

definition set_minWidth :: "string option \<Rightarrow> string \<Rightarrow> page \<Rightarrow> (js_error + unit) \<times> page" where
  "set_minWidth h v p =
     (case h of
        None \<Rightarrow> (Inl TypeError, p)
      | Some i \<Rightarrow>
          (case elements p i of
             None \<Rightarrow> (Inl TypeError, p)
           | Some e \<Rightarrow>
               (Inr (),
                p\<lparr>elements := (elements p)(i \<mapsto> e\<lparr>style := assign (parses p) ''min-width'' v (style e)\<rparr>),
                  journal := journal p @ [\<lparr>target = i, property = ''min-width'', text_written = v\<rparr>]\<rparr>)))"

text \<open>
  The computed value of a property: an inline declaration wins over the stylesheets and
  is reported as the engine resolves it; without one the stylesheet value is reported,
  and the empty string when there is none.
\<close>

definition computed :: "(string \<Rightarrow> string) \<Rightarrow> element \<Rightarrow> string \<Rightarrow> string" where
  "computed r e prop =
     (case style e prop of
        Some v \<Rightarrow> r v
      | None \<Rightarrow> (case sheet e prop of Some v \<Rightarrow> v | None \<Rightarrow> []))"

text \<open>
  \<^verbatim>\<open>getComputedStyle(h)\<close>, returning the function \<^verbatim>\<open>getPropertyValue\<close> of the
  declaration it yields. On \<^verbatim>\<open>null\<close> the call throws.
\<close>

definition getComputedStyle :: "page \<Rightarrow> string option \<Rightarrow> js_error + (string \<Rightarrow> string)" where
  "getComputedStyle p h =
     (case h of
        None \<Rightarrow> Inl TypeError
      | Some i \<Rightarrow>
          (case elements p i of
             None \<Rightarrow> Inl TypeError
           | Some e \<Rightarrow> Inr (computed (engine p) e)))"

text \<open>The template literal \<^verbatim>\<open>`calc(${w1} - ${w2} - ${w3})`\<close>.\<close>

definition calc_expr :: "string \<Rightarrow> string \<Rightarrow> string \<Rightarrow> string" where
  "calc_expr w1 w2 w3 = ''calc('' @ w1 @ '' - '' @ w2 @ '' - '' @ w3 @ '')''"

section \<open>The function updateMinWidth\<close>

text \<open>
  \<^verbatim>\<open>
  function updateMinWidth() {
    var sidebar = document.getElementById("sidebar");
    var main = document.getElementById("main");
    main.style.minWidth = "";
    var w1 = getComputedStyle(main).getPropertyValue("min-width");
    var w2 = getComputedStyle(sidebar).getPropertyValue("width");
    var w3 = getComputedStyle(sidebar).getPropertyValue("left");
    main.style.minWidth = `calc(${w1} - ${w2} - ${w3})`;
  }
  \<close>
  The result is the exception that escapes (\<open>Inl\<close>) or normal completion (\<open>Inr\<close>),
  with the page as the call leaves it: what was written before a throw stays written.
\<close>

definition updateMinWidth :: "page \<Rightarrow> (js_error + unit) \<times> page" where
  "updateMinWidth p =
     (let sidebar = getElementById p ''sidebar'';
          main = getElementById p ''main''
      in case set_minWidth main [] p of
           (Inl err, p1) \<Rightarrow> (Inl err, p1)
         | (Inr u, p1) \<Rightarrow>
             (case getComputedStyle p1 main of
                Inl err \<Rightarrow> (Inl err, p1)
              | Inr cs1 \<Rightarrow>
                  let w1 = cs1 ''min-width'' in
                  (case getComputedStyle p1 sidebar of
                     Inl err \<Rightarrow> (Inl err, p1)
                   | Inr cs2 \<Rightarrow>
                       let w2 = cs2 ''width'' in
                       (case getComputedStyle p1 sidebar of
                          Inl err \<Rightarrow> (Inl err, p1)
                        | Inr cs3 \<Rightarrow>
                            let w3 = cs3 ''left'' in
                            set_minWidth main (calc_expr w1 w2 w3) p1))))"

section \<open>The script's top level\<close>

text \<open>
  \<^verbatim>\<open>
  window.onload = updateMinWidth;
  window.onresize = updateMinWidth;
  document.getElementById("sidebar").addEventListener("transitionend", updateMinWidth);
  \<close>
  The function declaration is hoisted, so the first two statements store the function.
\<close>

definition addEventListener :: "string option \<Rightarrow> string \<Rightarrow> handler \<Rightarrow> page \<Rightarrow> (js_error + unit) \<times> page" where
  "addEventListener h ev f p =
     (case h of
        None \<Rightarrow> (Inl TypeError, p)
      | Some i \<Rightarrow>
          (case elements p i of
             None \<Rightarrow> (Inl TypeError, p)
           | Some e \<Rightarrow>
               (Inr (),
                p\<lparr>elements := (elements p)(i \<mapsto>
                     e\<lparr>listeners := (if (ev, f) \<in> set (listeners e) then listeners e
                                       else listeners e @ [(ev, f)])\<rparr>)\<rparr>)))"

definition script :: "page \<Rightarrow> (js_error + unit) \<times> page" where
  "script p =
     (let p1 = p\<lparr>onload := Some UpdateMinWidth\<rparr>;
          p2 = p1\<lparr>onresize := Some UpdateMinWidth\<rparr>
      in addEventListener (getElementById p2 ''sidebar'') ''transitionend'' UpdateMinWidth p2)"

section \<open>Reading the page\<close>

text \<open>The inline \<^verbatim>\<open>min-width\<close> of the element with id \<open>i\<close>, if the element exists and has one.\<close>

definition inline_minWidth :: "page \<Rightarrow> string \<Rightarrow> string option" where
  "inline_minWidth p i = (case elements p i of None \<Rightarrow> None | Some e \<Rightarrow> style e ''min-width'')"

text \<open>The value the stylesheets alone give a property: the intrinsic value.\<close>

definition intrinsic :: "element \<Rightarrow> string \<Rightarrow> string" where
  "intrinsic e prop = (case sheet e prop of Some v \<Rightarrow> v | None \<Rightarrow> [])"

text \<open>The assignments a call added to the journal.\<close>

definition writes_of :: "page \<Rightarrow> page \<Rightarrow> style_write list" where
  "writes_of p p' = drop (length (journal p)) (journal p')"

text \<open>The page with a given inline \<^verbatim>\<open>min-width\<close> on the main element (any earlier override).\<close>

definition with_override :: "string option \<Rightarrow> page \<Rightarrow> page" where
  "with_override ov p =
     (case elements p ''main'' of
        None \<Rightarrow> p
      | Some m \<Rightarrow> p\<lparr>elements := (elements p)(''main'' \<mapsto> m\<lparr>style := (style m)(''min-width'' := ov)\<rparr>)\<rparr>)"

section \<open>Pixel arithmetic of the rendering engine\<close>

text \<open>
  What the applied declaration amounts to is decided by the rendering engine, not by the
  script. For declarations over whole pixel lengths the engine's rule is plain
  arithmetic: a length is an optional sign, decimal digits and \<^verbatim>\<open>px\<close>; a
  \<^verbatim>\<open>calc(...)\<close> body is a length followed by \<^verbatim>\<open>+\<close> or \<^verbatim>\<open>-\<close> and a length, each
  operator between single spaces; a negative result of \<^verbatim>\<open>calc\<close> is clamped to zero,
  since a minimum width is never negative. Anything else is outside this fragment
  (\<open>None\<close>).
\<close>

definition digit_of :: "char \<Rightarrow> nat option" where
  "digit_of c =
     (let n = (of_char c :: nat) in if 48 \<le> n \<and> n \<le> 57 then Some (n - 48) else None)"

fun number_of :: "nat \<Rightarrow> string \<Rightarrow> nat option" where
  "number_of acc [] = Some acc"
| "number_of acc (c # cs) =
     (case digit_of c of None \<Rightarrow> None | Some d \<Rightarrow> number_of (10 * acc + d) cs)"

definition px_digits :: "string \<Rightarrow> nat option" where
  "px_digits s =
     (let n = length s
      in if 3 \<le> n \<and> drop (n - 2) s = ''px'' then number_of 0 (take (n - 2) s) else None)"

definition px_length :: "string \<Rightarrow> int option" where
  "px_length s =
     (case s of
        [] \<Rightarrow> None
      | c # cs \<Rightarrow>
          if c = CHR ''-'' then map_option (\<lambda>n. - int n) (px_digits cs)
          else map_option int (px_digits s))"

fun split_spaces :: "string \<Rightarrow> string \<Rightarrow> string list" where
  "split_spaces cur [] = [cur]"
| "split_spaces cur (c # cs) =
     (if c = CHR '' '' then cur # split_spaces [] cs else split_spaces (cur @ [c]) cs)"

fun calc_terms :: "int \<Rightarrow> string list \<Rightarrow> int option" where
  "calc_terms acc [] = Some acc"
| "calc_terms acc [x] = None"
| "calc_terms acc (oper # t # rest) =
     (case px_length t of
        None \<Rightarrow> None
      | Some v \<Rightarrow>
          if oper = ''-'' then calc_terms (acc - v) rest
          else if oper = ''+'' then calc_terms (acc + v) rest
          else None)"

definition resolve_px :: "string \<Rightarrow> int option" where
  "resolve_px s =
     (let n = length s
      in if 6 \<le> n \<and> take 5 s = ''calc('' \<and> drop (n - 1) s = '')'' then
           (case split_spaces [] (take (n - 6) (drop 5 s)) of
              [] \<Rightarrow> None
            | t # rest \<Rightarrow>
                (case px_length t of
                   None \<Rightarrow> None
                 | Some v \<Rightarrow> map_option (max 0) (calc_terms v rest)))
         else (case px_length s of
                 None \<Rightarrow> None
               | Some v \<Rightarrow> if 0 \<le> v then Some v else None))"

text \<open>
  The effective minimum width, in pixels, of the element with id \<open>i\<close>, from the inline
  declaration it holds.
\<close>

definition effective_minWidth_px :: "page \<Rightarrow> string \<Rightarrow> int option" where
  "effective_minWidth_px p i =
     (case inline_minWidth p i of None \<Rightarrow> None | Some v \<Rightarrow> resolve_px v)"

section \<open>Sample pages\<close>

text \<open>
  A sample engine for the whole-pixel fragment: it parses exactly the texts that
  \<open>resolve_px\<close> can evaluate, stores a plain length as it stands and a \<^verbatim>\<open>calc(...)\<close>
  text folded to one length, as engines serialise it; every other text it cannot parse.
\<close>

fun digits_of :: "nat \<Rightarrow> string" where
  "digits_of n =
     (if n < 10 then [char_of (48 + n)]
      else digits_of (n div 10) @ [char_of (48 + n mod 10)])"

declare digits_of.simps [simp del]

definition px_engine :: "string \<Rightarrow> string option" where
  "px_engine v =
     (case resolve_px v of
        None \<Rightarrow> None
      | Some n \<Rightarrow>
          Some (if take 5 v = ''calc('' then ''calc('' @ digits_of (nat n) @ ''px)'' else v))"

text \<open>
  The blog's page skeleton: a main element whose stylesheet minimum width is
  \<^verbatim>\<open>600px\<close>, possibly carrying an inline override, and a sidebar with the given
  stylesheet width and left offset.
\<close>

definition main_element :: "string option \<Rightarrow> element" where
  "main_element ov =
     \<lparr>style = (Map.empty(''min-width'' := ov)),
      sheet = [''min-width'' \<mapsto> ''600px''],
      listeners = []\<rparr>"

definition sidebar_element :: "string \<Rightarrow> string \<Rightarrow> element" where
  "sidebar_element w l =
     \<lparr>style = Map.empty, sheet = [''width'' \<mapsto> w, ''left'' \<mapsto> l], listeners = []\<rparr>"

definition blog_page :: "string option \<Rightarrow> string \<Rightarrow> string \<Rightarrow> page" where
  "blog_page ov w l =
     \<lparr>elements = [''main'' \<mapsto> main_element ov, ''sidebar'' \<mapsto> sidebar_element w l],
      onload = None, onresize = None, parses = px_engine, engine = (\<lambda>v. v), journal = []\<rparr>"

text \<open>The same page after the sidebar was removed, the main element still overridden.\<close>

definition page_without_sidebar :: page where
  "page_without_sidebar =
     \<lparr>elements = [''main'' \<mapsto> main_element (Some ''calc(600px - 240px - 0px)'')],
      onload = None, onresize = None, parses = px_engine, engine = (\<lambda>v. v), journal = []\<rparr>"

text \<open>A page with a sidebar and no main element.\<close>

definition page_without_main :: page where
  "page_without_main =
     \<lparr>elements = [''sidebar'' \<mapsto> sidebar_element ''240px'' ''0px''],
      onload = None, onresize = None, parses = px_engine, engine = (\<lambda>v. v), journal = []\<rparr>"

section \<open>The three courses of a call\<close>

lemma calc_expr_nonempty: "calc_expr a b c \<noteq> []"
  by (simp add: calc_expr_def)

text \<open>Without a main element the first assignment throws; nothing was written.\<close>

lemma updateMinWidth_no_main:
  assumes "elements p ''main'' = None"
  shows "updateMinWidth p = (Inl TypeError, p)"
  using assms by (simp add: updateMinWidth_def getElementById_def set_minWidth_def)

text \<open>
  With a main element and no sidebar the override is cleared, the main element is
  measured, and the measurement of the sidebar throws.
\<close>

lemma updateMinWidth_no_sidebar:
  assumes "elements p ''main'' = Some m" and "elements p ''sidebar'' = None"
  shows "updateMinWidth p =
           (Inl TypeError,
            p\<lparr>elements := (elements p)(''main'' \<mapsto> m\<lparr>style := (style m)(''min-width'' := None)\<rparr>),
              journal := journal p @
                [\<lparr>target = ''main'', property = ''min-width'', text_written = []\<rparr>]\<rparr>)"
  using assms
  by (simp add: updateMinWidth_def getElementById_def set_minWidth_def getComputedStyle_def
        assign_def Let_def)

text \<open>
  With both elements the call completes: two assignments, the second the expression, of
  which the main element keeps what the engine's parser makes.
\<close>

lemma updateMinWidth_both:
  assumes "elements p ''main'' = Some m" and "elements p ''sidebar'' = Some s"
  shows "updateMinWidth p =
           (Inr (),
            p\<lparr>elements := (elements p)(''main'' \<mapsto>
                 m\<lparr>style := (style m)(''min-width'' :=
                      parses p (calc_expr (intrinsic m ''min-width'')
                        (computed (engine p) s ''width'') (computed (engine p) s ''left'')))\<rparr>),
              journal := journal p @
                [\<lparr>target = ''main'', property = ''min-width'', text_written = []\<rparr>,
                 \<lparr>target = ''main'', property = ''min-width'',
                  text_written = calc_expr (intrinsic m ''min-width'')
                        (computed (engine p) s ''width'') (computed (engine p) s ''left'')\<rparr>]\<rparr>)"
  using assms
  by (simp add: updateMinWidth_def getElementById_def set_minWidth_def getComputedStyle_def
        assign_def Let_def calc_expr_nonempty computed_def intrinsic_def split: option.split)

text \<open>What a completed call leaves behind, as the next call finds it.\<close>

lemma inline_minWidth_both:
  assumes "elements p ''main'' = Some m" and "elements p ''sidebar'' = Some s"
  shows "inline_minWidth (snd (updateMinWidth p)) ''main'' =
           parses p (calc_expr (intrinsic m ''min-width'')
                   (computed (engine p) s ''width'') (computed (engine p) s ''left''))"
  by (simp add: updateMinWidth_both [OF assms] inline_minWidth_def)

lemma last_write_both:
  assumes "elements p ''main'' = Some m" and "elements p ''sidebar'' = Some s"
  shows "text_written (last (journal (snd (updateMinWidth p)))) =
           calc_expr (intrinsic m ''min-width'')
                   (computed (engine p) s ''width'') (computed (engine p) s ''left'')"
  by (simp add: updateMinWidth_both [OF assms])

lemma after_both:
  assumes "elements p ''main'' = Some m" and "elements p ''sidebar'' = Some s"
  shows "\<exists>m'. elements (snd (updateMinWidth p)) ''main'' = Some m' \<and> sheet m' = sheet m"
    and "elements (snd (updateMinWidth p)) ''sidebar'' = Some s"
    and "engine (snd (updateMinWidth p)) = engine p"
    and "parses (snd (updateMinWidth p)) = parses p"
  using assms by (simp_all add: updateMinWidth_both [OF assms])

text \<open>The sample pages hold what their names say.\<close>

lemmas fixtures = blog_page_def main_element_def sidebar_element_def page_without_sidebar_def
  page_without_main_def

lemma blog_page_main: "elements (blog_page ov w l) ''main'' = Some (main_element ov)"
  by (simp add: blog_page_def)

lemma blog_page_sidebar: "elements (blog_page ov w l) ''sidebar'' = Some (sidebar_element w l)"
  by (simp add: blog_page_def)

lemma blog_page_parses: "parses (blog_page ov w l) = px_engine"
  by (simp add: blog_page_def)

lemma blog_page_measures:
  "intrinsic (main_element ov) ''min-width'' = ''600px''"
  "computed (engine (blog_page ov w l)) (sidebar_element w l) ''width'' = w"
  "computed (engine (blog_page ov w l)) (sidebar_element w l) ''left'' = l"
  by (simp_all add: intrinsic_def computed_def fixtures)

text \<open>The sample engine on the texts the sample pages produce.\<close>

lemmas px_defs = resolve_px_def px_length_def px_digits_def digit_of_def

lemma px_engine_expanded: "px_engine ''calc(600px - 240px - 0px)'' = Some ''calc(360px)''"
  by code_simp

lemma px_engine_collapsed: "px_engine ''calc(600px - 240px - -240px)'' = Some ''calc(600px)''"
  by code_simp

lemma px_engine_narrow: "px_engine ''calc(600px - 64px - 0px)'' = Some ''calc(536px)''"
  by code_simp

lemma px_engine_auto_left: "px_engine ''calc(600px - 240px - auto)'' = None"
  by code_simp

lemma px_engine_auto_width: "px_engine ''calc(600px - auto - )'' = None"
  by code_simp

lemma px_engine_garbage: "px_engine ''calc(600px - auto - not a length;)'' = None"
  by code_simp

section \<open>Missing elements\<close>

text \<open>
  Claim C1, as the specification states it: whenever the sidebar or the main element is
  absent, a call is a no-op that leaves the main element's style unmodified and lets no
  exception escape. The script has no guard: on the page whose sidebar was removed and
  whose main element still carries the override of an earlier call, the call removes
  that override and a \<open>TypeError\<close> escapes.
\<close>

theorem missing_sidebar_not_a_noop:
  "getElementById page_without_sidebar ''sidebar'' = None \<and>
   inline_minWidth page_without_sidebar ''main'' = Some ''calc(600px - 240px - 0px)'' \<and>
   fst (updateMinWidth page_without_sidebar) = Inl TypeError \<and>
   inline_minWidth (snd (updateMinWidth page_without_sidebar)) ''main'' = None"
  by (simp add: updateMinWidth_def getElementById_def set_minWidth_def getComputedStyle_def
        assign_def Let_def inline_minWidth_def fixtures)

text \<open>
  Claim C1, amended: when the main element is absent, a call throws a \<open>TypeError\<close> and
  leaves the page as it was; when the main element is present and the sidebar is absent,
  a call removes the main element's inline \<^verbatim>\<open>min-width\<close>, changes nothing else of the
  document, and then throws a \<open>TypeError\<close>.
\<close>

theorem missing_element_throws:
  "(elements p ''main'' = None \<longrightarrow> updateMinWidth p = (Inl TypeError, p)) \<and>
   (\<forall>m. elements p ''main'' = Some m \<and> elements p ''sidebar'' = None \<longrightarrow>
      updateMinWidth p =
        (Inl TypeError,
         p\<lparr>elements := (elements p)(''main'' \<mapsto> m\<lparr>style := (style m)(''min-width'' := None)\<rparr>),
           journal := journal p @
             [\<lparr>target = ''main'', property = ''min-width'', text_written = []\<rparr>]\<rparr>))"
  by (simp add: updateMinWidth_no_main updateMinWidth_no_sidebar)

theorem missing_element_throws_witness:
  "elements page_without_main ''main'' = None \<and>
   updateMinWidth page_without_main = (Inl TypeError, page_without_main) \<and>
   elements page_without_sidebar ''main'' = Some (main_element (Some ''calc(600px - 240px - 0px)'')) \<and>
   elements page_without_sidebar ''sidebar'' = None \<and>
   fst (updateMinWidth page_without_sidebar) = Inl TypeError \<and>
   elements (snd (updateMinWidth page_without_sidebar)) = [''main'' \<mapsto> main_element None] \<and>
   journal (snd (updateMinWidth page_without_sidebar)) =
     [\<lparr>target = ''main'', property = ''min-width'', text_written = []\<rparr>]"
proof -
  have a: "elements page_without_main ''main'' = None"
    by (simp add: page_without_main_def)
  have b: "elements page_without_sidebar ''main'' = Some (main_element (Some ''calc(600px - 240px - 0px)''))"
    by (simp add: page_without_sidebar_def)
  have c: "elements page_without_sidebar ''sidebar'' = None"
    by (simp add: page_without_sidebar_def)
  from missing_element_throws [of page_without_main] a
  have 1: "updateMinWidth page_without_main = (Inl TypeError, page_without_main)" by blast
  from missing_element_throws [of page_without_sidebar] b c
  have 2: "updateMinWidth page_without_sidebar =
        (Inl TypeError,
         page_without_sidebar\<lparr>elements := (elements page_without_sidebar)(''main'' \<mapsto>
              (main_element (Some ''calc(600px - 240px - 0px)''))\<lparr>style :=
                 (style (main_element (Some ''calc(600px - 240px - 0px)'')))(''min-width'' := None)\<rparr>),
           journal := journal page_without_sidebar @
             [\<lparr>target = ''main'', property = ''min-width'', text_written = []\<rparr>]\<rparr>)"
    by blast
  show ?thesis
    using a b c 1 by (simp add: 2) (simp add: page_without_sidebar_def main_element_def)
qed

section \<open>The override is cleared before measuring\<close>

text \<open>
  Claim C2: every call clears the inline \<^verbatim>\<open>min-width\<close> of the main element before it
  reads the computed \<^verbatim>\<open>min-width\<close>, so the value measured is the stylesheets' own:
  whatever override \<open>ov\<close> the main element carries when the call starts, the first
  operand of the expression assigned is the intrinsic minimum width, and the main
  element keeps what the engine's parser makes of that expression. Hence a call on a
  page with sidebar \<open>s1\<close>, a change of the sidebar to \<open>s2\<close> and a second call assign
  an expression over the intrinsic minimum width and the width and left offset of
  \<open>s2\<close> alone, and leave the main element with what the parser makes of it; nothing of
  \<open>s1\<close> is left in either.
\<close>

theorem override_cleared_before_measuring:
  assumes "elements p ''main'' = Some m" and "elements p ''sidebar'' = Some s1"
  shows "text_written (last (journal (snd (updateMinWidth (with_override ov p))))) =
           calc_expr (intrinsic m ''min-width'')
             (computed (engine p) s1 ''width'') (computed (engine p) s1 ''left'')
         \<and> inline_minWidth (snd (updateMinWidth (with_override ov p))) ''main'' =
             parses p (calc_expr (intrinsic m ''min-width'')
                   (computed (engine p) s1 ''width'') (computed (engine p) s1 ''left''))
         \<and> (let p1 = snd (updateMinWidth p);
                p2 = p1\<lparr>elements := (elements p1)(''sidebar'' \<mapsto> s2)\<rparr>
            in text_written (last (journal (snd (updateMinWidth p2)))) =
                 calc_expr (intrinsic m ''min-width'')
                   (computed (engine p) s2 ''width'') (computed (engine p) s2 ''left'')
               \<and> inline_minWidth (snd (updateMinWidth p2)) ''main'' =
                   parses p (calc_expr (intrinsic m ''min-width'')
                         (computed (engine p) s2 ''width'') (computed (engine p) s2 ''left'')))"
proof -
  let ?q = "with_override ov p"
  have qm: "elements ?q ''main'' = Some (m\<lparr>style := (style m)(''min-width'' := ov)\<rparr>)"
    and qs: "elements ?q ''sidebar'' = Some s1" and qe: "engine ?q = engine p"
    and qp: "parses ?q = parses p"
    using assms by (simp_all add: with_override_def)
  have first: "inline_minWidth (snd (updateMinWidth ?q)) ''main'' =
           parses p (calc_expr (intrinsic m ''min-width'')
                   (computed (engine p) s1 ''width'') (computed (engine p) s1 ''left''))"
    using inline_minWidth_both [OF qm qs] by (simp add: qe qp intrinsic_def)
  have first_text: "text_written (last (journal (snd (updateMinWidth ?q)))) =
           calc_expr (intrinsic m ''min-width'')
             (computed (engine p) s1 ''width'') (computed (engine p) s1 ''left'')"
    using last_write_both [OF qm qs] by (simp add: qe intrinsic_def)
  let ?p1 = "snd (updateMinWidth p)"
  let ?p2 = "?p1\<lparr>elements := (elements ?p1)(''sidebar'' \<mapsto> s2)\<rparr>"
  obtain m' where m': "elements ?p1 ''main'' = Some m'" "sheet m' = sheet m"
    using after_both(1) [OF assms] by blast
  have p2m: "elements ?p2 ''main'' = Some m'" using m' by simp
  have p2s: "elements ?p2 ''sidebar'' = Some s2" by simp
  have p2e: "engine ?p2 = engine p" using after_both(3) [OF assms] by simp
  have p2p: "parses ?p2 = parses p" using after_both(4) [OF assms] by simp
  have second: "inline_minWidth (snd (updateMinWidth ?p2)) ''main'' =
                 parses p (calc_expr (intrinsic m ''min-width'')
                         (computed (engine p) s2 ''width'') (computed (engine p) s2 ''left''))"
    using inline_minWidth_both [OF p2m p2s] m'(2) by (simp add: p2e p2p intrinsic_def)
  have second_text: "text_written (last (journal (snd (updateMinWidth ?p2)))) =
                 calc_expr (intrinsic m ''min-width'')
                   (computed (engine p) s2 ''width'') (computed (engine p) s2 ''left'')"
    using last_write_both [OF p2m p2s] m'(2) by (simp add: p2e intrinsic_def)
  show ?thesis using first first_text second second_text by (simp add: Let_def)
qed

text \<open>
  On the sample page, from a stale override, and with the sidebar shrunk from
  \<^verbatim>\<open>240px\<close> to \<^verbatim>\<open>64px\<close> between two calls.
\<close>

theorem override_cleared_before_measuring_witness:
  "text_written (last (journal (snd (updateMinWidth (blog_page (Some ''calc(360px)'') ''240px'' ''0px'')))))
     = ''calc(600px - 240px - 0px)'' \<and>
   inline_minWidth (snd (updateMinWidth (blog_page (Some ''calc(360px)'') ''240px'' ''0px''))) ''main''
     = Some ''calc(360px)'' \<and>
   text_written (last (journal (snd (updateMinWidth
      ((snd (updateMinWidth (blog_page None ''240px'' ''0px'')))
         \<lparr>elements := (elements (snd (updateMinWidth (blog_page None ''240px'' ''0px''))))
             (''sidebar'' \<mapsto> sidebar_element ''64px'' ''0px'')\<rparr>)))))
     = ''calc(600px - 64px - 0px)'' \<and>
   inline_minWidth (snd (updateMinWidth
      ((snd (updateMinWidth (blog_page None ''240px'' ''0px'')))
         \<lparr>elements := (elements (snd (updateMinWidth (blog_page None ''240px'' ''0px''))))
             (''sidebar'' \<mapsto> sidebar_element ''64px'' ''0px'')\<rparr>))) ''main''
     = Some ''calc(536px)''"
proof -
  have eq: "with_override (Some ''calc(360px)'') (blog_page None ''240px'' ''0px'')
            = blog_page (Some ''calc(360px)'') ''240px'' ''0px''"
    by (auto simp add: with_override_def fixtures fun_eq_iff)
  have e1: "calc_expr (intrinsic (main_element None) ''min-width'')
              (computed (engine (blog_page None ''240px'' ''0px'')) (sidebar_element ''240px'' ''0px'') ''width'')
              (computed (engine (blog_page None ''240px'' ''0px'')) (sidebar_element ''240px'' ''0px'') ''left'')
            = ''calc(600px - 240px - 0px)''"
    by (simp add: fixtures calc_expr_def intrinsic_def computed_def)
  have e2: "calc_expr (intrinsic (main_element None) ''min-width'')
              (computed (engine (blog_page None ''240px'' ''0px'')) (sidebar_element ''64px'' ''0px'') ''width'')
              (computed (engine (blog_page None ''240px'' ''0px'')) (sidebar_element ''64px'' ''0px'') ''left'')
            = ''calc(600px - 64px - 0px)''"
    by (simp add: fixtures calc_expr_def intrinsic_def computed_def)
  show ?thesis
    using override_cleared_before_measuring
      [where p = "blog_page None ''240px'' ''0px''"
         and ov = "Some ''calc(360px)''"
         and ?s2.0 = "sidebar_element ''64px'' ''0px''",
       OF blog_page_main blog_page_sidebar]
    by (simp add: eq Let_def e1 e2 blog_page_parses px_engine_expanded px_engine_narrow)
qed

section \<open>The expression assigned\<close>

text \<open>
  Claim C3, as the specification states it: on every page where both elements are found,
  a call sets the main element's inline \<^verbatim>\<open>min-width\<close> to the deferred expression over
  the three measured texts. The script assigns that text, but what the inline
  \<^verbatim>\<open>min-width\<close> then holds is the setter's doing: on the sample page whose sidebar is
  not positioned, so that its computed \<^verbatim>\<open>left\<close> is \<^verbatim>\<open>auto\<close>, the call completes, the
  text assigned is \<^verbatim>\<open>calc(600px - 240px - auto)\<close>, the engine cannot parse it, and the
  main element is left without inline \<^verbatim>\<open>min-width\<close>.
\<close>

theorem deferred_text_not_kept:
  "fst (updateMinWidth (blog_page None ''240px'' ''auto'')) = Inr () \<and>
   text_written (last (journal (snd (updateMinWidth (blog_page None ''240px'' ''auto'')))))
     = ''calc(600px - 240px - auto)'' \<and>
   inline_minWidth (snd (updateMinWidth (blog_page None ''240px'' ''auto''))) ''main'' = None"
  by (simp add: updateMinWidth_both [OF blog_page_main blog_page_sidebar] inline_minWidth_def
        blog_page_measures blog_page_parses)
     (simp add: calc_expr_def px_engine_auto_left)

text \<open>
  Claim C3, amended: on every page where both elements are found, a call completes and
  assigns to the main element's inline \<^verbatim>\<open>min-width\<close> the text
  \<^verbatim>\<open>calc(\<close>\<open>w1\<close>\<^verbatim>\<open> - \<close>\<open>w2\<close>\<^verbatim>\<open> - \<close>\<open>w3\<close>\<^verbatim>\<open>)\<close>, where \<open>w1\<close> is the computed \<^verbatim>\<open>min-width\<close> of
  the main element as read once the override is cleared, \<open>w2\<close> the computed
  \<^verbatim>\<open>width\<close> of the sidebar and \<open>w3\<close> its computed \<^verbatim>\<open>left\<close>: the three measured texts
  with their units, the subtraction left to the engine. The inline \<^verbatim>\<open>min-width\<close> then
  holds the engine's serialisation of that text when the engine can parse it, and is
  absent when it cannot.
\<close>

theorem assigns_calc_expression:
  assumes "elements p ''main'' = Some m" and "elements p ''sidebar'' = Some s"
  shows "let e = ''calc(''
                 @ computed (engine p)
                     (m\<lparr>style := assign (parses p) ''min-width'' [] (style m)\<rparr>) ''min-width''
                 @ '' - '' @ computed (engine p) s ''width''
                 @ '' - '' @ computed (engine p) s ''left'' @ '')''
         in fst (updateMinWidth p) = Inr () \<and>
            text_written (last (journal (snd (updateMinWidth p)))) = e \<and>
            inline_minWidth (snd (updateMinWidth p)) ''main'' = parses p e"
  using inline_minWidth_both [OF assms]
  by (simp add: updateMinWidth_both [OF assms] calc_expr_def computed_def assign_def
        intrinsic_def Let_def)

text \<open>On the sample page with the sidebar expanded: the engine keeps the folded form.\<close>

theorem assigns_calc_expression_witness:
  "fst (updateMinWidth (blog_page (Some ''stale'') ''240px'' ''0px'')) = Inr () \<and>
   text_written (last (journal (snd (updateMinWidth (blog_page (Some ''stale'') ''240px'' ''0px'')))))
     = ''calc(600px - 240px - 0px)'' \<and>
   inline_minWidth (snd (updateMinWidth (blog_page (Some ''stale'') ''240px'' ''0px''))) ''main''
     = Some ''calc(360px)''"
proof -
  have e: "''calc(''
            @ computed (engine (blog_page (Some ''stale'') ''240px'' ''0px''))
                ((main_element (Some ''stale''))\<lparr>style :=
                   assign (parses (blog_page (Some ''stale'') ''240px'' ''0px'')) ''min-width'' []
                     (style (main_element (Some ''stale'')))\<rparr>) ''min-width''
            @ '' - '' @ computed (engine (blog_page (Some ''stale'') ''240px'' ''0px''))
                          (sidebar_element ''240px'' ''0px'') ''width''
            @ '' - '' @ computed (engine (blog_page (Some ''stale'') ''240px'' ''0px''))
                          (sidebar_element ''240px'' ''0px'') ''left'' @ '')''
           = ''calc(600px - 240px - 0px)''"
    by (simp add: fixtures computed_def assign_def)
  show ?thesis
    using assigns_calc_expression
      [OF blog_page_main blog_page_sidebar, of "Some ''stale''" "''240px''" "''0px''"]
    unfolding Let_def e by (simp add: blog_page_parses px_engine_expanded)
qed

section \<open>Idempotence\<close>

text \<open>
  Claim C4: on any page, a second call right after a first ends as the first did, leaves
  the document's elements as the first left them and issues the same assignments with
  the same expression; and the elements a call leaves do not depend on the override
  \<open>ov\<close> the main element carried before it, only on the measurements.
\<close>

theorem updateMinWidth_idempotent:
  "fst (updateMinWidth (snd (updateMinWidth p))) = fst (updateMinWidth p) \<and>
   elements (snd (updateMinWidth (snd (updateMinWidth p)))) = elements (snd (updateMinWidth p)) \<and>
   writes_of (snd (updateMinWidth p)) (snd (updateMinWidth (snd (updateMinWidth p))))
     = writes_of p (snd (updateMinWidth p)) \<and>
   elements (snd (updateMinWidth (with_override ov p))) = elements (snd (updateMinWidth p))"
proof (cases "elements p ''main''")
  case None
  then show ?thesis
    by (simp add: updateMinWidth_no_main with_override_def)
next
  case (Some m)
  note m = Some
  let ?q = "with_override ov p"
  have qm: "elements ?q ''main'' = Some (m\<lparr>style := (style m)(''min-width'' := ov)\<rparr>)"
    and qe: "engine ?q = engine p" and qp: "parses ?q = parses p"
    and qs: "elements ?q ''sidebar'' = elements p ''sidebar''"
    using m by (simp_all add: with_override_def)
  show ?thesis
  proof (cases "elements p ''sidebar''")
    case None
    note s = None
    let ?p1 = "snd (updateMinWidth p)"
    have p1: "updateMinWidth p = (Inl TypeError,
            p\<lparr>elements := (elements p)(''main'' \<mapsto> m\<lparr>style := (style m)(''min-width'' := None)\<rparr>),
              journal := journal p @
                [\<lparr>target = ''main'', property = ''min-width'', text_written = []\<rparr>]\<rparr>)"
      by (rule updateMinWidth_no_sidebar [OF m s])
    have p1m: "elements ?p1 ''main'' = Some (m\<lparr>style := (style m)(''min-width'' := None)\<rparr>)"
      and p1s: "elements ?p1 ''sidebar'' = None"
      using s by (simp_all add: p1)
    have qs': "elements ?q ''sidebar'' = None" using qs s by simp
    show ?thesis
      by (simp add: updateMinWidth_no_sidebar [OF p1m p1s] updateMinWidth_no_sidebar [OF qm qs']
            writes_of_def)
         (simp add: p1 with_override_def m)
  next
    case (Some s)
    note s = Some
    let ?p1 = "snd (updateMinWidth p)"
    let ?e = "calc_expr (intrinsic m ''min-width'')
                        (computed (engine p) s ''width'') (computed (engine p) s ''left'')"
    have p1: "updateMinWidth p = (Inr (),
            p\<lparr>elements := (elements p)(''main'' \<mapsto>
                 m\<lparr>style := (style m)(''min-width'' := parses p ?e)\<rparr>),
              journal := journal p @
                [\<lparr>target = ''main'', property = ''min-width'', text_written = []\<rparr>,
                 \<lparr>target = ''main'', property = ''min-width'', text_written = ?e\<rparr>]\<rparr>)"
      by (rule updateMinWidth_both [OF m s])
    have p1m: "elements ?p1 ''main'' = Some (m\<lparr>style := (style m)(''min-width'' := parses p ?e)\<rparr>)"
      and p1s: "elements ?p1 ''sidebar'' = Some s"
      using s by (simp_all add: p1)
    have qs': "elements ?q ''sidebar'' = Some s" using qs s by simp
    show ?thesis
      by (simp add: updateMinWidth_both [OF p1m p1s] updateMinWidth_both [OF qm qs']
            writes_of_def intrinsic_def)
         (simp add: p1 with_override_def m intrinsic_def)
  qed
qed

text \<open>On the sample page: the second call leaves what the first left.\<close>

theorem updateMinWidth_idempotent_witness:
  "inline_minWidth (snd (updateMinWidth (snd (updateMinWidth (blog_page None ''240px'' ''0px''))))) ''main''
     = Some ''calc(360px)'' \<and>
   inline_minWidth (snd (updateMinWidth (blog_page None ''240px'' ''0px''))) ''main''
     = Some ''calc(360px)''"
proof -
  have 1: "inline_minWidth (snd (updateMinWidth (blog_page None ''240px'' ''0px''))) ''main''
             = Some ''calc(360px)''"
    by (simp add: inline_minWidth_both [OF blog_page_main blog_page_sidebar]
          blog_page_measures blog_page_parses)
       (simp add: calc_expr_def px_engine_expanded)
  have "elements (snd (updateMinWidth (snd (updateMinWidth (blog_page None ''240px'' ''0px'')))))
          = elements (snd (updateMinWidth (blog_page None ''240px'' ''0px'')))"
    using updateMinWidth_idempotent [of "blog_page None ''240px'' ''0px''" None] by blast
  then have "inline_minWidth (snd (updateMinWidth (snd (updateMinWidth (blog_page None ''240px'' ''0px''))))) ''main''
          = inline_minWidth (snd (updateMinWidth (blog_page None ''240px'' ''0px''))) ''main''"
    by (simp add: inline_minWidth_def)
  with 1 show ?thesis by simp
qed

section \<open>The two scenarios\<close>

text \<open>
  Claim C5: with a sidebar whose computed width is \<^verbatim>\<open>240px\<close> and computed left
  \<^verbatim>\<open>0px\<close>, and a main element whose intrinsic minimum width is \<^verbatim>\<open>600px\<close>, the
  override applied resolves to an effective minimum width of 360 pixels: the text
  assigned is \<^verbatim>\<open>calc(600px - 240px - 0px)\<close>, which amounts to 360 pixels, the main
  element keeps what the engine's parser makes of that text, and in whatever form of the
  same pixel value the engine stores it, the effective minimum width of the main element
  is 360 pixels.
\<close>

theorem expanded_sidebar_scenario:
  assumes "elements p ''main'' = Some m" and "elements p ''sidebar'' = Some s"
    and "intrinsic m ''min-width'' = ''600px''"
    and "computed (engine p) s ''width'' = ''240px''"
    and "computed (engine p) s ''left'' = ''0px''"
  shows "text_written (last (journal (snd (updateMinWidth p)))) = ''calc(600px - 240px - 0px)'' \<and>
         resolve_px ''calc(600px - 240px - 0px)'' = Some 360 \<and>
         inline_minWidth (snd (updateMinWidth p)) ''main'' = parses p ''calc(600px - 240px - 0px)'' \<and>
         (\<forall>v. parses p ''calc(600px - 240px - 0px)'' = Some v \<and>
              resolve_px v = resolve_px ''calc(600px - 240px - 0px)'' \<longrightarrow>
              effective_minWidth_px (snd (updateMinWidth p)) ''main'' = Some 360)"
proof -
  have t: "text_written (last (journal (snd (updateMinWidth p)))) = ''calc(600px - 240px - 0px)''"
    using last_write_both [OF assms(1,2)] assms(3-5) by (simp add: calc_expr_def)
  have i: "inline_minWidth (snd (updateMinWidth p)) ''main'' = parses p ''calc(600px - 240px - 0px)''"
    using inline_minWidth_both [OF assms(1,2)] assms(3-5) by (simp add: calc_expr_def)
  have r: "resolve_px ''calc(600px - 240px - 0px)'' = Some 360"
    by (simp add: px_defs)
  show ?thesis using t i r by (simp add: effective_minWidth_px_def)
qed

text \<open>On the sample page, whose engine stores the text folded to \<^verbatim>\<open>calc(360px)\<close>.\<close>

theorem expanded_sidebar_scenario_witness:
  "text_written (last (journal (snd (updateMinWidth (blog_page None ''240px'' ''0px'')))))
     = ''calc(600px - 240px - 0px)'' \<and>
   inline_minWidth (snd (updateMinWidth (blog_page None ''240px'' ''0px''))) ''main''
     = Some ''calc(360px)'' \<and>
   effective_minWidth_px (snd (updateMinWidth (blog_page None ''240px'' ''0px''))) ''main'' = Some 360"
proof -
  have r: "resolve_px ''calc(360px)'' = resolve_px ''calc(600px - 240px - 0px)''"
    by (simp add: px_defs)
  have ps: "parses (blog_page None ''240px'' ''0px'') ''calc(600px - 240px - 0px)'' = Some ''calc(360px)''"
    by (simp add: blog_page_parses px_engine_expanded)
  show ?thesis
    using expanded_sidebar_scenario
      [where p = "blog_page None ''240px'' ''0px''",
       OF blog_page_main blog_page_sidebar blog_page_measures]
      r ps
    by simp
qed

text \<open>
  Claim C6: with the sidebar collapsed, computed left \<^verbatim>\<open>-240px\<close> and computed width
  \<^verbatim>\<open>240px\<close>, and a main element whose intrinsic minimum width is \<^verbatim>\<open>600px\<close>, the
  override applied resolves to an effective minimum width of 600 pixels: the text
  assigned is \<^verbatim>\<open>calc(600px - 240px - -240px)\<close>, which amounts to 600 pixels, the main
  element keeps what the engine's parser makes of that text, and in whatever form of the
  same pixel value the engine stores it, the effective minimum width of the main element
  is 600 pixels.
\<close>

theorem collapsed_sidebar_scenario:
  assumes "elements p ''main'' = Some m" and "elements p ''sidebar'' = Some s"
    and "intrinsic m ''min-width'' = ''600px''"
    and "computed (engine p) s ''width'' = ''240px''"
    and "computed (engine p) s ''left'' = ''-240px''"
  shows "text_written (last (journal (snd (updateMinWidth p)))) = ''calc(600px - 240px - -240px)'' \<and>
         resolve_px ''calc(600px - 240px - -240px)'' = Some 600 \<and>
         inline_minWidth (snd (updateMinWidth p)) ''main'' = parses p ''calc(600px - 240px - -240px)'' \<and>
         (\<forall>v. parses p ''calc(600px - 240px - -240px)'' = Some v \<and>
              resolve_px v = resolve_px ''calc(600px - 240px - -240px)'' \<longrightarrow>
              effective_minWidth_px (snd (updateMinWidth p)) ''main'' = Some 600)"
proof -
  have t: "text_written (last (journal (snd (updateMinWidth p)))) = ''calc(600px - 240px - -240px)''"
    using last_write_both [OF assms(1,2)] assms(3-5) by (simp add: calc_expr_def)
  have i: "inline_minWidth (snd (updateMinWidth p)) ''main'' = parses p ''calc(600px - 240px - -240px)''"
    using inline_minWidth_both [OF assms(1,2)] assms(3-5) by (simp add: calc_expr_def)
  have r: "resolve_px ''calc(600px - 240px - -240px)'' = Some 600"
    by (simp add: px_defs)
  show ?thesis using t i r by (simp add: effective_minWidth_px_def)
qed

text \<open>On the sample page, from a stale override, so that the clearing matters.\<close>

theorem collapsed_sidebar_scenario_witness:
  "text_written (last (journal (snd (updateMinWidth (blog_page (Some ''calc(360px)'') ''240px'' ''-240px'')))))
     = ''calc(600px - 240px - -240px)'' \<and>
   inline_minWidth (snd (updateMinWidth (blog_page (Some ''calc(360px)'') ''240px'' ''-240px''))) ''main''
     = Some ''calc(600px)'' \<and>
   effective_minWidth_px (snd (updateMinWidth (blog_page (Some ''calc(360px)'') ''240px'' ''-240px''))) ''main''
     = Some 600"
proof -
  have r: "resolve_px ''calc(600px)'' = resolve_px ''calc(600px - 240px - -240px)''"
    by (simp add: px_defs)
  have ps: "parses (blog_page (Some ''calc(360px)'') ''240px'' ''-240px'') ''calc(600px - 240px - -240px)''
              = Some ''calc(600px)''"
    by (simp add: blog_page_parses px_engine_collapsed)
  show ?thesis
    using collapsed_sidebar_scenario
      [where p = "blog_page (Some ''calc(360px)'') ''240px'' ''-240px''",
       OF blog_page_main blog_page_sidebar blog_page_measures]
      r ps
    by simp
qed

section \<open>What a call leaves alone\<close>

text \<open>
  Claim C7, as the specification states it: every call writes exactly one inline style
  property, \<^verbatim>\<open>min-width\<close> of the main element. On the page without main element the
  call throws at its first assignment: it writes no property at all and leaves the page
  as it was.
\<close>

theorem nothing_written_without_main:
  "getElementById page_without_main ''main'' = None \<and>
   fst (updateMinWidth page_without_main) = Inl TypeError \<and>
   writes_of page_without_main (snd (updateMinWidth page_without_main)) = [] \<and>
   snd (updateMinWidth page_without_main) = page_without_main"
proof -
  have a: "elements page_without_main ''main'' = None"
    by (simp add: page_without_main_def)
  show ?thesis
    by (simp add: updateMinWidth_no_main [OF a] writes_of_def getElementById_def a)
qed

text \<open>
  Claim C7, amended: a call writes no inline style property but \<^verbatim>\<open>min-width\<close> of the
  main element, and leaves everything else unchanged: the window's handlers and the
  engine are as before, every element but the main one is as before, and the main
  element is as before but for its inline \<^verbatim>\<open>min-width\<close>. It writes that one property
  whenever the page has a main element, and nothing when it has none. What the main
  element's inline \<^verbatim>\<open>min-width\<close> is after the call: with both elements, what the
  engine's parser makes of the expression assigned; with the sidebar missing, absent,
  the override having been cleared before the throw.
\<close>

theorem only_main_minWidth_written:
  "onload (snd (updateMinWidth p)) = onload p \<and>
   onresize (snd (updateMinWidth p)) = onresize p \<and>
   parses (snd (updateMinWidth p)) = parses p \<and>
   engine (snd (updateMinWidth p)) = engine p \<and>
   (elements (snd (updateMinWidth p)))(''main'' := None) = (elements p)(''main'' := None) \<and>
   map_option (\<lambda>e. e\<lparr>style := (style e)(''min-width'' := None)\<rparr>)
       (elements (snd (updateMinWidth p)) ''main'')
     = map_option (\<lambda>e. e\<lparr>style := (style e)(''min-width'' := None)\<rparr>) (elements p ''main'') \<and>
   inline_minWidth (snd (updateMinWidth p)) ''main''
     = (case elements p ''main'' of
          None \<Rightarrow> None
        | Some m \<Rightarrow>
            (case elements p ''sidebar'' of
               None \<Rightarrow> None
             | Some s \<Rightarrow>
                 parses p (calc_expr (intrinsic m ''min-width'')
                   (computed (engine p) s ''width'') (computed (engine p) s ''left'')))) \<and>
   journal (snd (updateMinWidth p)) = journal p @ writes_of p (snd (updateMinWidth p)) \<and>
   set (map (\<lambda>w. (target w, property w)) (writes_of p (snd (updateMinWidth p))))
     = (if elements p ''main'' = None then {} else {(''main'', ''min-width'')})"
proof (cases "elements p ''main''")
  case None
  then show ?thesis
    by (simp add: updateMinWidth_no_main writes_of_def inline_minWidth_def)
next
  case (Some m)
  note m = Some
  show ?thesis
  proof (cases "elements p ''sidebar''")
    case None
    show ?thesis
      by (simp add: updateMinWidth_no_sidebar [OF m None] writes_of_def m None
            inline_minWidth_def)
  next
    case (Some s)
    show ?thesis
      by (simp add: updateMinWidth_both [OF m Some] writes_of_def m Some inline_minWidth_def)
  qed
qed

text \<open>
  On the sample page the sidebar is untouched, both assignments go to the one property
  and the main element's inline \<^verbatim>\<open>min-width\<close> changes from none to \<^verbatim>\<open>calc(360px)\<close>; on
  the page without sidebar the override the main element carried is gone.
\<close>

theorem only_main_minWidth_written_witness:
  "elements (snd (updateMinWidth (blog_page None ''240px'' ''0px''))) ''sidebar''
     = Some (sidebar_element ''240px'' ''0px'') \<and>
   set (map (\<lambda>w. (target w, property w))
          (writes_of (blog_page None ''240px'' ''0px'')
             (snd (updateMinWidth (blog_page None ''240px'' ''0px'')))))
     = {(''main'', ''min-width'')} \<and>
   inline_minWidth (blog_page None ''240px'' ''0px'') ''main'' = None \<and>
   inline_minWidth (snd (updateMinWidth (blog_page None ''240px'' ''0px''))) ''main''
     = Some ''calc(360px)'' \<and>
   inline_minWidth page_without_sidebar ''main'' = Some ''calc(600px - 240px - 0px)'' \<and>
   inline_minWidth (snd (updateMinWidth page_without_sidebar)) ''main'' = None"
proof -
  let ?p = "blog_page None ''240px'' ''0px''"
  have fr: "(elements (snd (updateMinWidth ?p)))(''main'' := None) = (elements ?p)(''main'' := None)"
    and w: "set (map (\<lambda>w. (target w, property w)) (writes_of ?p (snd (updateMinWidth ?p))))
       = (if elements ?p ''main'' = None then {} else {(''main'', ''min-width'')})"
    and i: "inline_minWidth (snd (updateMinWidth ?p)) ''main''
     = (case elements ?p ''main'' of
          None \<Rightarrow> None
        | Some m \<Rightarrow>
            (case elements ?p ''sidebar'' of
               None \<Rightarrow> None
             | Some s \<Rightarrow>
                 parses ?p (calc_expr (intrinsic m ''min-width'')
                   (computed (engine ?p) s ''width'') (computed (engine ?p) s ''left''))))"
    using only_main_minWidth_written [of ?p] by blast+
  have j: "inline_minWidth (snd (updateMinWidth page_without_sidebar)) ''main''
     = (case elements page_without_sidebar ''main'' of
          None \<Rightarrow> None
        | Some m \<Rightarrow>
            (case elements page_without_sidebar ''sidebar'' of
               None \<Rightarrow> None
             | Some s \<Rightarrow>
                 parses page_without_sidebar (calc_expr (intrinsic m ''min-width'')
                   (computed (engine page_without_sidebar) s ''width'')
                   (computed (engine page_without_sidebar) s ''left''))))"
    using only_main_minWidth_written [of page_without_sidebar] by blast
  from fr have "((elements (snd (updateMinWidth ?p)))(''main'' := None)) ''sidebar''
               = ((elements ?p)(''main'' := None)) ''sidebar''"
    by simp
  then have 1: "elements (snd (updateMinWidth ?p)) ''sidebar'' = Some (sidebar_element ''240px'' ''0px'')"
    by (simp add: blog_page_sidebar)
  have 2: "inline_minWidth (snd (updateMinWidth ?p)) ''main'' = Some ''calc(360px)''"
    using i by (simp add: blog_page_main blog_page_sidebar blog_page_measures blog_page_parses)
               (simp add: calc_expr_def px_engine_expanded)
  have 3: "inline_minWidth (snd (updateMinWidth page_without_sidebar)) ''main'' = None"
    using j by (simp add: page_without_sidebar_def)
  have 4: "inline_minWidth ?p ''main'' = None"
    "inline_minWidth page_without_sidebar ''main'' = Some ''calc(600px - 240px - 0px)''"
    by (simp_all add: inline_minWidth_def fixtures)
  from w 1 2 3 4 show ?thesis by (simp add: blog_page_main)
qed

section \<open>Measurements that are not lengths\<close>

text \<open>
  Claim C8: whatever the three computed texts \<open>w1\<close>, \<open>w2\<close>, \<open>w3\<close> are, lengths or
  not, the call raises no error and the text it assigns last is
  \<^verbatim>\<open>calc(\<close>\<open>w1\<close>\<^verbatim>\<open> - \<close>\<open>w2\<close>\<^verbatim>\<open> - \<close>\<open>w3\<close>\<^verbatim>\<open>)\<close> with the three texts verbatim: the script
  parses and validates nothing, and leaves it to the engine what becomes of the text.
\<close>

theorem measurements_propagated_verbatim:
  assumes "elements p ''main'' = Some m" and "elements p ''sidebar'' = Some s"
    and "intrinsic m ''min-width'' = w1"
    and "computed (engine p) s ''width'' = w2"
    and "computed (engine p) s ''left'' = w3"
  shows "fst (updateMinWidth p) = Inr () \<and>
         last (journal (snd (updateMinWidth p))) =
           \<lparr>target = ''main'', property = ''min-width'',
            text_written = ''calc('' @ w1 @ '' - '' @ w2 @ '' - '' @ w3 @ '')''\<rparr>"
  using assms(3-5) by (simp add: updateMinWidth_both [OF assms(1,2)] calc_expr_def)

text \<open>On a sidebar whose width is \<^verbatim>\<open>auto\<close> and whose left offset is no length at all.\<close>

theorem measurements_propagated_verbatim_witness:
  "fst (updateMinWidth (blog_page None ''auto'' ''not a length;'')) = Inr () \<and>
   last (journal (snd (updateMinWidth (blog_page None ''auto'' ''not a length;'')))) =
     \<lparr>target = ''main'', property = ''min-width'',
      text_written = ''calc(600px - auto - not a length;)''\<rparr>"
proof -
  let ?p = "blog_page None ''auto'' ''not a length;''"
  have a: "intrinsic (main_element None) ''min-width'' = ''600px''"
    by (simp add: intrinsic_def main_element_def)
  have b: "computed (engine ?p) (sidebar_element ''auto'' ''not a length;'') ''width'' = ''auto''"
    by (simp add: computed_def sidebar_element_def)
  have c: "computed (engine ?p) (sidebar_element ''auto'' ''not a length;'') ''left'' = ''not a length;''"
    by (simp add: computed_def sidebar_element_def)
  show ?thesis
    using measurements_propagated_verbatim [OF blog_page_main blog_page_sidebar a b c] by simp
qed

section \<open>Loading the script on a page without sidebar\<close>

text \<open>
  Claim C9: when the page has no element with id \<^verbatim>\<open>sidebar\<close> as the script runs, the
  third statement throws a \<open>TypeError\<close>: both window handlers have been stored by
  then, and no listener is attached to any element.
\<close>

theorem script_throws_without_sidebar:
  assumes "elements p ''sidebar'' = None"
  shows "script p = (Inl TypeError, p\<lparr>onload := Some UpdateMinWidth, onresize := Some UpdateMinWidth\<rparr>)"
  using assms by (simp add: script_def addEventListener_def getElementById_def Let_def)

theorem script_throws_without_sidebar_witness:
  "fst (script page_without_sidebar) = Inl TypeError \<and>
   elements (snd (script page_without_sidebar)) = elements page_without_sidebar \<and>
   onload (snd (script page_without_sidebar)) = Some UpdateMinWidth \<and>
   onresize (snd (script page_without_sidebar)) = Some UpdateMinWidth"
proof -
  have a: "elements page_without_sidebar ''sidebar'' = None"
    by (simp add: page_without_sidebar_def)
  show ?thesis using script_throws_without_sidebar [OF a] by simp
qed

text \<open>With a sidebar the listener is attached and the script completes.\<close>

lemma script_with_sidebar:
  assumes "elements p ''sidebar'' = Some s" and "listeners s = []"
  shows "script p = (Inr (), p\<lparr>elements := (elements p)(''sidebar'' \<mapsto> s\<lparr>listeners := [(''transitionend'', UpdateMinWidth)]\<rparr>), onload := Some UpdateMinWidth, onresize := Some UpdateMinWidth\<rparr>)"
  using assms by (simp add: script_def addEventListener_def getElementById_def Let_def)

section \<open>Totality and the order of the writes\<close>

text \<open>
  Claim C10, as the specification states it: with both elements found, a call always
  ends with a non-empty \<^verbatim>\<open>calc\<close> expression as the main element's inline
  \<^verbatim>\<open>min-width\<close>. On the sample page whose sidebar has computed width \<^verbatim>\<open>auto\<close> and an
  empty computed left, and whose main element carries an earlier override, the call
  completes with its two assignments, the engine cannot parse the second, and the main
  element ends without inline \<^verbatim>\<open>min-width\<close>.
\<close>

theorem calc_text_not_always_kept:
  "fst (updateMinWidth (blog_page (Some ''calc(360px)'') ''auto'' [])) = Inr () \<and>
   writes_of (blog_page (Some ''calc(360px)'') ''auto'' [])
       (snd (updateMinWidth (blog_page (Some ''calc(360px)'') ''auto'' []))) =
     [\<lparr>target = ''main'', property = ''min-width'', text_written = []\<rparr>,
      \<lparr>target = ''main'', property = ''min-width'', text_written = ''calc(600px - auto - )''\<rparr>] \<and>
   inline_minWidth (blog_page (Some ''calc(360px)'') ''auto'' []) ''main'' = Some ''calc(360px)'' \<and>
   inline_minWidth (snd (updateMinWidth (blog_page (Some ''calc(360px)'') ''auto'' []))) ''main'' = None"
  by (simp add: updateMinWidth_both [OF blog_page_main blog_page_sidebar] inline_minWidth_def
        blog_page_measures blog_page_parses writes_of_def)
     (simp add: calc_expr_def px_engine_auto_width fixtures)

text \<open>
  Claim C10, amended: when both elements are found, a call never throws, whatever the
  three computed texts are, and it assigns the main element's inline \<^verbatim>\<open>min-width\<close>
  exactly twice: first the empty string, then the composed expression, a non-empty text
  that opens with \<^verbatim>\<open>calc(\<close> and closes with a parenthesis. When the call ends the
  inline \<^verbatim>\<open>min-width\<close> holds the engine's serialisation of that expression if the
  engine can parse it, and is absent if it cannot.
\<close>

theorem total_with_two_writes:
  assumes "elements p ''main'' = Some m" and "elements p ''sidebar'' = Some s"
  shows "let e = calc_expr (intrinsic m ''min-width'')
                   (computed (engine p) s ''width'') (computed (engine p) s ''left'')
         in fst (updateMinWidth p) = Inr () \<and>
            writes_of p (snd (updateMinWidth p)) =
              [\<lparr>target = ''main'', property = ''min-width'', text_written = []\<rparr>,
               \<lparr>target = ''main'', property = ''min-width'', text_written = e\<rparr>] \<and>
            e \<noteq> [] \<and> take 5 e = ''calc('' \<and> last e = CHR '')'' \<and>
            inline_minWidth (snd (updateMinWidth p)) ''main'' = parses p e"
  using inline_minWidth_both [OF assms]
  by (simp add: updateMinWidth_both [OF assms] writes_of_def Let_def) (simp add: calc_expr_def)

text \<open>On the collapsed sidebar, from a stale override: the engine keeps \<^verbatim>\<open>calc(600px)\<close>.\<close>

theorem total_with_two_writes_witness:
  "fst (updateMinWidth (blog_page (Some ''stale'') ''240px'' ''-240px'')) = Inr () \<and>
   writes_of (blog_page (Some ''stale'') ''240px'' ''-240px'')
       (snd (updateMinWidth (blog_page (Some ''stale'') ''240px'' ''-240px''))) =
     [\<lparr>target = ''main'', property = ''min-width'', text_written = []\<rparr>,
      \<lparr>target = ''main'', property = ''min-width'',
       text_written = ''calc(600px - 240px - -240px)''\<rparr>] \<and>
   inline_minWidth (snd (updateMinWidth (blog_page (Some ''stale'') ''240px'' ''-240px''))) ''main'' =
     Some ''calc(600px)''"
proof -
  have e: "calc_expr (intrinsic (main_element (Some ''stale'')) ''min-width'')
             (computed (engine (blog_page (Some ''stale'') ''240px'' ''-240px''))
                (sidebar_element ''240px'' ''-240px'') ''width'')
             (computed (engine (blog_page (Some ''stale'') ''240px'' ''-240px''))
                (sidebar_element ''240px'' ''-240px'') ''left'')
           = ''calc(600px - 240px - -240px)''"
    by (simp add: blog_page_measures calc_expr_def)
  show ?thesis
    using total_with_two_writes
      [where p = "blog_page (Some ''stale'') ''240px'' ''-240px''",
       OF blog_page_main blog_page_sidebar]
    unfolding Let_def e by (simp add: blog_page_parses px_engine_collapsed)
qed

end
